theory Spec2Isabelle
  imports Complex_Main
begin

section \<open>Python values used by the video pipeline of \<^verbatim>\<open>app.py\<close>\<close>

text \<open>
  The pipeline of \<^verbatim>\<open>src/yolo/app.py\<close> is glue code around three external components:
  the OpenCV decoder and writer, the pretrained YOLO model and the ffmpeg executable.
  The external components are parameters of the model below; every call the source makes
  to one of them is recorded as an event of a trace, in program order, and every Python
  operation of the source that can raise is a branch returning an error.

  The calls into OpenCV, Ultralytics and imageio-ffmpeg are taken to return normally, and
  a call of the model to depend on the frame and the confidence threshold only. What the
  source itself computes on their results is modelled with its exceptions: \<^verbatim>\<open>int\<close> of a
  float, a dict lookup, a division, the exit status of a child process, and the value
  handed to the progress bar of Streamlit, which refuses a value outside its range.
\<close>

datatype error =
    KeyError int
  | ValueError
  | OverflowError
  | ZeroDivisionError
  | CalledProcessError int
  | StreamlitAPIException

text \<open>
  \<^verbatim>\<open>cap.get(...)\<close> returns a Python float. Only its truth value and its truncation to an
  integer are used by the source; both are exact operations, so a finite float is
  represented by the rational number it denotes.
\<close>

datatype pyfloat = Finite rat | NaN | PosInf | NegInf

datatype pynum = PyInt int | PyFloat pyfloat

definition float_truthy :: "pyfloat \<Rightarrow> bool" where
  "float_truthy x = (x \<noteq> Finite 0)"

text \<open>\<^verbatim>\<open>x or d\<close> for a float \<open>x\<close> and an integer default \<open>d\<close>.\<close>

definition py_or :: "pyfloat \<Rightarrow> int \<Rightarrow> pynum" where
  "py_or x d = (if float_truthy x then PyFloat x else PyInt d)"

text \<open>\<^verbatim>\<open>int(x)\<close> truncates towards zero and raises on NaN and on the infinities.\<close>

fun py_int :: "pyfloat \<Rightarrow> error + int" where
  "py_int (Finite r) = Inr (if 0 \<le> r then \<lfloor>r\<rfloor> else \<lceil>r\<rceil>)"
| "py_int NaN = Inl ValueError"
| "py_int PosInf = Inl OverflowError"
| "py_int NegInf = Inl OverflowError"

text \<open>
  \<^verbatim>\<open>a / b\<close> on two integers: true division, raising on a zero divisor. The float that
  Python computes for a non-zero divisor, the quotient rounded to a double, is the parameter
  \<open>true_divide\<close>: nothing below depends on the rounding.
\<close>

type_synonym float_division = "int \<Rightarrow> int \<Rightarrow> pyfloat"

definition py_truediv :: "float_division \<Rightarrow> int \<Rightarrow> int \<Rightarrow> error + pynum" where
  "py_truediv true_divide a b =
     (if b = 0 then Inl ZeroDivisionError else Inr (PyFloat (true_divide a b)))"

subsection \<open>Configuration constants (class \<^verbatim>\<open>Config\<close>)\<close>

definition UPLOAD_DIR :: string where "UPLOAD_DIR = ''uploads''"
definition OUTPUT_DIR :: string where "OUTPUT_DIR = ''outputs''"
definition CONFIDENCE_THRESHOLD :: rat where "CONFIDENCE_THRESHOLD = 4 / 10"
definition DEFAULT_FPS :: int where "DEFAULT_FPS = 25"
definition VIDEO_CODEC :: string where "VIDEO_CODEC = ''mp4v''"
definition H264_CODEC :: string where "H264_CODEC = ''libx264''"
definition PIXEL_FORMAT :: string where "PIXEL_FORMAT = ''yuv420p''"

subsection \<open>\<^verbatim>\<open>collections.Counter\<close>\<close>

text \<open>
  A Counter is a dict from elements to integer counts; a dict keeps its keys in insertion
  order, so it is an association list. Reading a missing key gives 0.
\<close>

type_synonym counter = "(string \<times> int) list"

fun dict_set :: "'k \<Rightarrow> 'v \<Rightarrow> ('k \<times> 'v) list \<Rightarrow> ('k \<times> 'v) list" where
  "dict_set k v [] = [(k, v)]"
| "dict_set k v ((k', v') # d) = (if k' = k then (k, v) # d else (k', v') # dict_set k v d)"

definition counter_get :: "counter \<Rightarrow> string \<Rightarrow> int" where
  "counter_get c k = (case map_of c k of None \<Rightarrow> 0 | Some n \<Rightarrow> n)"

text \<open>\<^verbatim>\<open>Counter(iterable)\<close>: \<^verbatim>\<open>for elem in iterable: self[elem] = self.get(elem, 0) + 1\<close>.\<close>

definition Counter :: "string list \<Rightarrow> counter" where
  "Counter xs = fold (\<lambda>elem self. dict_set elem (counter_get self elem + 1) self) xs []"

text \<open>
  \<^verbatim>\<open>self.update(other)\<close> for a Counter \<open>other\<close>:
  \<^verbatim>\<open>for elem, count in other.items(): self[elem] = count + self.get(elem, 0)\<close>.
\<close>

definition counter_update :: "counter \<Rightarrow> counter \<Rightarrow> counter" where
  "counter_update self other =
     fold (\<lambda>(elem, count) s. dict_set elem (count + counter_get s elem) s) other self"

section \<open>The external components\<close>

text \<open>
  What the decoder reports for a file: the four properties read by
  \<^verbatim>\<open>get_video_properties\<close>, and the frames \<^verbatim>\<open>cap.read()\<close> yields before it returns
  \<^verbatim>\<open>ret = False\<close>. A path that cannot be opened reports zeros and no frame.
\<close>

record 'f video =
  prop_fps :: pyfloat
  prop_frame_width :: pyfloat
  prop_frame_height :: pyfloat
  prop_frame_count :: pyfloat
  frames :: "'f list"

text \<open>
  The first result of a model call: \<open>boxes_cls\<close> are the class indices of the boxes
  (\<^verbatim>\<open>results[0].boxes.cls\<close>, one per box), \<open>plot\<close> is the rendered frame
  (\<^verbatim>\<open>results[0].plot()\<close>).
\<close>

record 'i detection =
  boxes_cls :: "int list"
  plot :: 'i

record ('f, 'i) yolo =
  predict :: "rat \<Rightarrow> 'f \<Rightarrow> 'i detection"
  names :: "int \<rightharpoonup> string"

section \<open>Effects: a trace of events, and errors as values\<close>

datatype log_msg =
    SavedUpload string
  | StartingDetection
  | FrameCounts int int counter
  | DetectionCompleted
  | StartingEncoding
  | EncodingCompleted

datatype ui_event =
    ProgressBarCreate
  | StatusCreate
  | SpinnerEnter
  | SpinnerExit
  | ProgressBarSet pynum
  | StatusText int int
  | ProgressBarEmpty
  | StatusEmpty

datatype ('f, 'i) event =
    OpenCapture string
  | ReleaseCapture string
  | OpenWriter string string pynum int int
  | ReleaseWriter string
  | ReadFrame 'f
  | ReadEnd
  | Inference 'f rat
  | StatsUpdate counter
  | ProgressCall int int
  | WriteFrame 'i
  | LogInfo log_msg
  | SaveFile string
  | UI ui_event
  | RunProcess "string list"

text \<open>
  A computation returns the events it made, in order, and a value or the exception that
  ended it.
\<close>

type_synonym ('f, 'i, 'a) io = "('f, 'i) event list \<times> (error + 'a)"

definition return_io :: "'a \<Rightarrow> ('f, 'i, 'a) io" where
  "return_io a = ([], Inr a)"

definition emit :: "('f, 'i) event list \<Rightarrow> ('f, 'i, unit) io" where
  "emit evs = (evs, Inr ())"

definition lift_io :: "error + 'a \<Rightarrow> ('f, 'i, 'a) io" where
  "lift_io r = ([], r)"

definition bind_io :: "('f, 'i, 'a) io \<Rightarrow> ('a \<Rightarrow> ('f, 'i, 'b) io) \<Rightarrow> ('f, 'i, 'b) io" where
  "bind_io x f =
     (case x of
        (evs, Inl e) \<Rightarrow> (evs, Inl e)
      | (evs, Inr a) \<Rightarrow> (case f a of (evs', r) \<Rightarrow> (evs @ evs', r)))"

text \<open>
  A progress callback receives \<^verbatim>\<open>(frame_id, total_frames)\<close>; what it does is user
  interface work, and it may raise.
\<close>

type_synonym callback = "int \<Rightarrow> int \<Rightarrow> ui_event list \<times> (error + unit)"

definition call_callback :: "callback \<Rightarrow> int \<Rightarrow> int \<Rightarrow> ('f, 'i, unit) io" where
  "call_callback cb current tot = (case cb current tot of (uis, r) \<Rightarrow> (map UI uis, r))"

section \<open>The functions of the source\<close>

subsection \<open>\<^verbatim>\<open>get_video_properties\<close>\<close>

text \<open>
  The four reads of \<^verbatim>\<open>cap.get\<close> with their conversions, in the order of the source:
  \<^verbatim>\<open>fps = cap.get(CAP_PROP_FPS) or Config.DEFAULT_FPS\<close>, then \<^verbatim>\<open>int(...)\<close> of the
  width, the height and the frame count.
\<close>

definition read_properties :: "'f video \<Rightarrow> error + pynum \<times> int \<times> int \<times> int" where
  "read_properties cap =
     (let fps = py_or (prop_fps cap) DEFAULT_FPS in
      case py_int (prop_frame_width cap) of
        Inl e \<Rightarrow> Inl e
      | Inr width \<Rightarrow>
          (case py_int (prop_frame_height cap) of
             Inl e \<Rightarrow> Inl e
           | Inr height \<Rightarrow>
               (case py_int (prop_frame_count cap) of
                  Inl e \<Rightarrow> Inl e
                | Inr total_frames \<Rightarrow> Inr (fps, width, height, total_frames))))"

definition get_video_properties ::
  "(string \<Rightarrow> 'f video) \<Rightarrow> string \<Rightarrow> ('f, 'i, pynum \<times> int \<times> int \<times> int) io" where
  "get_video_properties decoder video_path =
     bind_io (emit [OpenCapture video_path]) (\<lambda>_.
     bind_io (lift_io (read_properties (decoder video_path))) (\<lambda>props.
     bind_io (emit [ReleaseCapture video_path]) (\<lambda>_.
     return_io props)))"

subsection \<open>\<^verbatim>\<open>process_video_with_yolo\<close>\<close>

text \<open>\<^verbatim>\<open>[model.names[c] for c in classes]\<close>: a missing key raises.\<close>

fun lookup_names :: "(int \<rightharpoonup> string) \<Rightarrow> int list \<Rightarrow> error + string list" where
  "lookup_names nm [] = Inr []"
| "lookup_names nm (c # cs) =
     (case nm c of
        None \<Rightarrow> Inl (KeyError c)
      | Some s \<Rightarrow> (case lookup_names nm cs of Inl e \<Rightarrow> Inl e | Inr ss \<Rightarrow> Inr (s # ss)))"

record loop_state =
  frame_id :: int
  stats :: counter

text \<open>The block under \<^verbatim>\<open>if len(results[0].boxes) > 0\<close>; it returns the updated statistics.\<close>

definition extract_detections ::
  "('f, 'i) yolo \<Rightarrow> int \<Rightarrow> int \<Rightarrow> 'i detection \<Rightarrow> counter \<Rightarrow> ('f, 'i, counter) io" where
  "extract_detections model total_frames fid results st =
     (if length (boxes_cls results) > 0 then
        bind_io (lift_io (lookup_names (names model) (boxes_cls results))) (\<lambda>nms.
        let counts = Counter nms;
            st' = counter_update st counts
        in
        bind_io (emit [StatsUpdate counts, LogInfo (FrameCounts fid total_frames counts)]) (\<lambda>_.
        return_io st'))
      else return_io st)"

text \<open>
  \<^verbatim>\<open>if progress_callback and total_frames > 0: progress_callback(frame_id, total_frames)\<close>.
  The call is recorded, followed by the events of the callback; an exception of the
  callback ends the loop.
\<close>

definition report_progress ::
  "callback option \<Rightarrow> int \<Rightarrow> int \<Rightarrow> ('f, 'i, unit) io" where
  "report_progress progress_callback fid total_frames =
     (case progress_callback of
        None \<Rightarrow> return_io ()
      | Some cb \<Rightarrow>
          if total_frames > 0 then
            bind_io (emit [ProgressCall fid total_frames]) (\<lambda>_.
            call_callback cb fid total_frames)
          else return_io ())"

text \<open>One iteration of the \<^verbatim>\<open>while True\<close> loop, after \<^verbatim>\<open>cap.read()\<close> returned a frame.\<close>

definition loop_body ::
  "('f, 'i) yolo \<Rightarrow> callback option \<Rightarrow> int \<Rightarrow> 'f \<Rightarrow> loop_state
     \<Rightarrow> ('f, 'i, loop_state) io" where
  "loop_body model progress_callback total_frames frame st =
     (let fid = frame_id st + 1 in
      bind_io (emit [Inference frame CONFIDENCE_THRESHOLD]) (\<lambda>_.
      let results = predict model CONFIDENCE_THRESHOLD frame in
      bind_io (extract_detections model total_frames fid results (stats st)) (\<lambda>st'.
      bind_io (report_progress progress_callback fid total_frames) (\<lambda>_.
      bind_io (emit [WriteFrame (plot results)]) (\<lambda>_.
      return_io \<lparr>frame_id = fid, stats = st'\<rparr>)))))"

text \<open>
  The loop, by recursion on the frames the decoder still has: it ends when
  \<^verbatim>\<open>cap.read()\<close> returns \<^verbatim>\<open>ret = False\<close>.
\<close>

fun frame_loop ::
  "('f, 'i) yolo \<Rightarrow> callback option \<Rightarrow> int \<Rightarrow> 'f list \<Rightarrow> loop_state
     \<Rightarrow> ('f, 'i, loop_state) io" where
  "frame_loop model progress_callback total_frames [] st =
     bind_io (emit [ReadEnd]) (\<lambda>_. return_io st)"
| "frame_loop model progress_callback total_frames (frame # rest) st =
     bind_io (emit [ReadFrame frame]) (\<lambda>_.
     bind_io (loop_body model progress_callback total_frames frame st) (\<lambda>st'.
     frame_loop model progress_callback total_frames rest st'))"

definition process_video_with_yolo ::
  "(string \<Rightarrow> 'f video) \<Rightarrow> string \<Rightarrow> string \<Rightarrow> ('f, 'i) yolo \<Rightarrow> callback option
     \<Rightarrow> ('f, 'i, counter) io" where
  "process_video_with_yolo decoder input_path output_path model progress_callback =
     bind_io (emit [OpenCapture input_path]) (\<lambda>_.
     bind_io (get_video_properties decoder input_path) (\<lambda>(fps, width, height, total_frames).
     bind_io (emit [OpenWriter output_path VIDEO_CODEC fps width height,
                    LogInfo StartingDetection]) (\<lambda>_.
     bind_io (frame_loop model progress_callback total_frames (frames (decoder input_path))
                \<lparr>frame_id = 0, stats = []\<rparr>) (\<lambda>st.
     bind_io (emit [ReleaseCapture input_path, ReleaseWriter output_path,
                    LogInfo DetectionCompleted]) (\<lambda>_.
     return_io (stats st))))))"

subsection \<open>\<^verbatim>\<open>encode_to_h264\<close>\<close>

text \<open>
  \<^verbatim>\<open>subprocess.run(cmd, check=...)\<close> of the standard library: the process runs and exits
  with \<open>returncode\<close>; only with \<^verbatim>\<open>check=True\<close> a nonzero exit status raises.
\<close>

definition subprocess_run :: "string list \<Rightarrow> bool \<Rightarrow> int \<Rightarrow> ('f, 'i, int) io" where
  "subprocess_run cmd check returncode =
     bind_io (emit [RunProcess cmd]) (\<lambda>_.
     if check \<and> returncode \<noteq> 0 then lift_io (Inl (CalledProcessError returncode))
     else return_io returncode)"

text \<open>
  \<open>ffmpeg_path\<close> is what \<^verbatim>\<open>imageio_ffmpeg.get_ffmpeg_exe()\<close> returns and \<open>returncode\<close>
  the exit status the transcoder will have. \<^verbatim>\<open>subprocess.run\<close> is called without
  \<^verbatim>\<open>check\<close>, whose default is \<^verbatim>\<open>False\<close>, and its result is dropped.
\<close>

definition encode_cmd :: "string \<Rightarrow> string \<Rightarrow> string \<Rightarrow> string list" where
  "encode_cmd ffmpeg_path input_path output_path =
     [ffmpeg_path, ''-y'',
      ''-i'', input_path,
      ''-vcodec'', H264_CODEC,
      ''-pix_fmt'', PIXEL_FORMAT,
      ''-movflags'', ''+faststart'',
      output_path]"

definition encode_to_h264 :: "string \<Rightarrow> int \<Rightarrow> string \<Rightarrow> string \<Rightarrow> ('f, 'i, unit) io" where
  "encode_to_h264 ffmpeg_path returncode input_path output_path =
     (let cmd = encode_cmd ffmpeg_path input_path output_path in
      bind_io (emit [LogInfo StartingEncoding]) (\<lambda>_.
      bind_io (subprocess_run cmd False returncode) (\<lambda>_.
      emit [LogInfo EncodingCompleted])))"

subsection \<open>\<^verbatim>\<open>process_uploaded_video\<close>\<close>

definition save_uploaded_file :: "string \<Rightarrow> ('f, 'i, unit) io" where
  "save_uploaded_file destination = emit [SaveFile destination, LogInfo (SavedUpload destination)]"

text \<open>
  \<^verbatim>\<open>progress_bar.progress(value)\<close> of Streamlit accepts an integer from 0 to 100 or a float
  from 0.0 to 1.0 and raises on any other value (also on NaN).
\<close>

fun progress_value_ok :: "pynum \<Rightarrow> bool" where
  "progress_value_ok (PyInt n) = (0 \<le> n \<and> n \<le> 100)"
| "progress_value_ok (PyFloat (Finite r)) = (0 \<le> r \<and> r \<le> 1)"
| "progress_value_ok (PyFloat _) = False"

text \<open>
  The nested function \<^verbatim>\<open>update_progress\<close>, the callback of the pipeline. When the
  progress bar refuses the value, the status text is not reached.
\<close>

definition update_progress :: "float_division \<Rightarrow> callback" where
  "update_progress true_divide current tot =
     (case (if tot > 0 then py_truediv true_divide current tot else Inr (PyInt 0)) of
        Inl e \<Rightarrow> ([], Inl e)
      | Inr progress \<Rightarrow>
          if progress_value_ok progress
          then ([ProgressBarSet progress, StatusText current tot], Inr ())
          else ([], Inl StreamlitAPIException))"

text \<open>\<^verbatim>\<open>with st.spinner(...): body\<close>: the spinner is left also when the body raises.\<close>

definition with_spinner :: "('f, 'i, 'a) io \<Rightarrow> ('f, 'i, 'a) io" where
  "with_spinner body = (case body of (evs, r) \<Rightarrow> (UI SpinnerEnter # evs @ [UI SpinnerExit], r))"

text \<open>
  \<open>uid\<close> is the string of \<^verbatim>\<open>uuid.uuid4()\<close>, \<open>uploaded\<close> is what the decoder reports for
  the uploaded bytes once they are saved at \<open>input_path\<close>, \<open>model\<close> is the global
  model loaded at start-up, and \<open>true_divide\<close> is the division of floats. Paths are joined as on POSIX.
\<close>

definition upload_path :: "string \<Rightarrow> string" where
  "upload_path uid = UPLOAD_DIR @ ''/'' @ uid @ ''.mp4''"

definition temp_output_path :: "string \<Rightarrow> string" where
  "temp_output_path uid = OUTPUT_DIR @ ''/'' @ uid @ ''_temp.mp4''"

definition final_output_path :: "string \<Rightarrow> string" where
  "final_output_path uid = OUTPUT_DIR @ ''/'' @ uid @ ''_final.mp4''"

definition process_uploaded_video ::
  "float_division \<Rightarrow> string \<Rightarrow> (string \<Rightarrow> 'f video) \<Rightarrow> 'f video \<Rightarrow> ('f, 'i) yolo
     \<Rightarrow> string \<Rightarrow> int \<Rightarrow> ('f, 'i, string \<times> string \<times> counter) io" where
  "process_uploaded_video true_divide uid decoder uploaded model ffmpeg_path returncode =
     (let input_path = upload_path uid;
          temp_path = temp_output_path uid;
          final_path = final_output_path uid
      in
      bind_io (save_uploaded_file input_path) (\<lambda>_.
      let decoder' = decoder(input_path := uploaded) in
      bind_io (emit [UI ProgressBarCreate, UI StatusCreate]) (\<lambda>_.
      bind_io (with_spinner
                 (process_video_with_yolo decoder' input_path temp_path model
                    (Some (update_progress true_divide)))) (\<lambda>st.
      bind_io (emit [UI ProgressBarEmpty, UI StatusEmpty]) (\<lambda>_.
      bind_io (with_spinner (encode_to_h264 ffmpeg_path returncode temp_path final_path)) (\<lambda>_.
      return_io (input_path, final_path, st)))))))"

section \<open>Observations of a trace\<close>

fun read_frames :: "('f, 'i) event list \<Rightarrow> 'f list" where
  "read_frames [] = []"
| "read_frames (ReadFrame f # tr) = f # read_frames tr"
| "read_frames (_ # tr) = read_frames tr"

fun inferred_frames :: "('f, 'i) event list \<Rightarrow> ('f \<times> rat) list" where
  "inferred_frames [] = []"
| "inferred_frames (Inference f conf # tr) = (f, conf) # inferred_frames tr"
| "inferred_frames (_ # tr) = inferred_frames tr"

fun written_frames :: "('f, 'i) event list \<Rightarrow> 'i list" where
  "written_frames [] = []"
| "written_frames (WriteFrame img # tr) = img # written_frames tr"
| "written_frames (_ # tr) = written_frames tr"

fun progress_calls :: "('f, 'i) event list \<Rightarrow> (int \<times> int) list" where
  "progress_calls [] = []"
| "progress_calls (ProgressCall i n # tr) = (i, n) # progress_calls tr"
| "progress_calls (_ # tr) = progress_calls tr"

fun run_processes :: "('f, 'i) event list \<Rightarrow> string list list" where
  "run_processes [] = []"
| "run_processes (RunProcess cmd # tr) = cmd # run_processes tr"
| "run_processes (_ # tr) = run_processes tr"

text \<open>The calls of the callback together with what the callback did, in order.\<close>

fun progress_trace :: "('f, 'i) event list \<Rightarrow> ('f, 'i) event list" where
  "progress_trace [] = []"
| "progress_trace (ProgressCall i n # tr) = ProgressCall i n # progress_trace tr"
| "progress_trace (UI u # tr) = UI u # progress_trace tr"
| "progress_trace (_ # tr) = progress_trace tr"

text \<open>\<open>precedes a b tr\<close>: \<open>a\<close> occurs in \<open>tr\<close> and \<open>b\<close> occurs after its first occurrence.\<close>

definition precedes :: "'a \<Rightarrow> 'a \<Rightarrow> 'a list \<Rightarrow> bool" where
  "precedes a b tr = (b \<in> set (drop 1 (dropWhile (\<lambda>e. e \<noteq> a) tr)))"

text \<open>
  \<open>n\<close> is \<open>r\<close> truncated towards zero: the integer no larger than \<open>r\<close> in absolute
  value that is less than 1 away from \<open>r\<close>.
\<close>

definition is_truncation :: "rat \<Rightarrow> int \<Rightarrow> bool" where
  "is_truncation r n = (\<bar>of_int n\<bar> \<le> \<bar>r\<bar> \<and> \<bar>r - of_int n\<bar> < 1)"

subsection \<open>Runs in which no external component raises\<close>

text \<open>Every class index the model detects on the frames has an entry in \<^verbatim>\<open>model.names\<close>.\<close>

definition names_cover :: "('f, 'i) yolo \<Rightarrow> 'f list \<Rightarrow> bool" where
  "names_cover model fs =
     list_all (\<lambda>f. list_all (\<lambda>c. names model c \<noteq> None)
                     (boxes_cls (predict model CONFIDENCE_THRESHOLD f))) fs"

text \<open>The callback, where the loop calls it on \<open>n\<close> frames, returns normally.\<close>

definition callback_returns :: "callback option \<Rightarrow> int \<Rightarrow> nat \<Rightarrow> bool" where
  "callback_returns progress_callback total_frames n =
     (case progress_callback of
        None \<Rightarrow> True
      | Some cb \<Rightarrow>
          total_frames > 0 \<longrightarrow> list_all (\<lambda>i. snd (cb i total_frames) = Inr ()) [1..int n])"

subsection \<open>The events of the loop, frame by frame\<close>

definition detected_names :: "('f, 'i) yolo \<Rightarrow> 'f \<Rightarrow> string list" where
  "detected_names model frame =
     (case lookup_names (names model) (boxes_cls (predict model CONFIDENCE_THRESHOLD frame)) of
        Inl _ \<Rightarrow> []
      | Inr nms \<Rightarrow> nms)"

definition inference_events :: "'f \<Rightarrow> ('f, 'i) event list" where
  "inference_events frame = [Inference frame CONFIDENCE_THRESHOLD]"

definition aggregate_events :: "('f, 'i) yolo \<Rightarrow> int \<Rightarrow> int \<Rightarrow> 'f \<Rightarrow> ('f, 'i) event list" where
  "aggregate_events model total_frames fid frame =
     (if boxes_cls (predict model CONFIDENCE_THRESHOLD frame) = [] then []
      else [StatsUpdate (Counter (detected_names model frame)),
            LogInfo (FrameCounts fid total_frames (Counter (detected_names model frame)))])"

definition progress_events :: "callback option \<Rightarrow> int \<Rightarrow> int \<Rightarrow> ('f, 'i) event list" where
  "progress_events progress_callback total_frames fid =
     (case progress_callback of
        None \<Rightarrow> []
      | Some cb \<Rightarrow>
          if total_frames > 0
          then ProgressCall fid total_frames # map UI (fst (cb fid total_frames))
          else [])"

definition write_events :: "('f, 'i) yolo \<Rightarrow> 'f \<Rightarrow> ('f, 'i) event list" where
  "write_events model frame = [WriteFrame (plot (predict model CONFIDENCE_THRESHOLD frame))]"

text \<open>The order of the steps of one frame in the source: progress is reported before the write.\<close>

definition frame_events ::
  "('f, 'i) yolo \<Rightarrow> callback option \<Rightarrow> int \<Rightarrow> int \<Rightarrow> 'f \<Rightarrow> ('f, 'i) event list" where
  "frame_events model progress_callback total_frames fid frame =
     ReadFrame frame # inference_events frame
       @ aggregate_events model total_frames fid frame
       @ progress_events progress_callback total_frames fid
       @ write_events model frame"

text \<open>The order of the steps of one frame in the words of the specification.\<close>

definition spec_frame_events ::
  "('f, 'i) yolo \<Rightarrow> callback option \<Rightarrow> int \<Rightarrow> int \<Rightarrow> 'f \<Rightarrow> ('f, 'i) event list" where
  "spec_frame_events model progress_callback total_frames fid frame =
     ReadFrame frame # inference_events frame
       @ aggregate_events model total_frames fid frame
       @ write_events model frame
       @ progress_events progress_callback total_frames fid"

fun loop_events ::
  "('f, 'i) yolo \<Rightarrow> callback option \<Rightarrow> int \<Rightarrow> int \<Rightarrow> 'f list \<Rightarrow> ('f, 'i) event list" where
  "loop_events model progress_callback total_frames fid [] = []"
| "loop_events model progress_callback total_frames fid (frame # rest) =
     frame_events model progress_callback total_frames (fid + 1) frame
       @ loop_events model progress_callback total_frames (fid + 1) rest"

fun spec_loop_events ::
  "('f, 'i) yolo \<Rightarrow> callback option \<Rightarrow> int \<Rightarrow> int \<Rightarrow> 'f list \<Rightarrow> ('f, 'i) event list" where
  "spec_loop_events model progress_callback total_frames fid [] = []"
| "spec_loop_events model progress_callback total_frames fid (frame # rest) =
     spec_frame_events model progress_callback total_frames (fid + 1) frame
       @ spec_loop_events model progress_callback total_frames (fid + 1) rest"


subsection \<open>The events of the pipeline around the loop\<close>

text \<open>What \<^verbatim>\<open>process_uploaded_video\<close> does before the first frame is read.\<close>

definition pipeline_prologue :: "string \<Rightarrow> pynum \<Rightarrow> int \<Rightarrow> int \<Rightarrow> ('f, 'i) event list" where
  "pipeline_prologue uid fps width height =
     [SaveFile (upload_path uid), LogInfo (SavedUpload (upload_path uid)),
      UI ProgressBarCreate, UI StatusCreate, UI SpinnerEnter,
      OpenCapture (upload_path uid), OpenCapture (upload_path uid),
      ReleaseCapture (upload_path uid),
      OpenWriter (temp_output_path uid) VIDEO_CODEC fps width height,
      LogInfo StartingDetection]"

text \<open>What it does from the read that reports the end of the video on.\<close>

definition pipeline_epilogue :: "string \<Rightarrow> string \<Rightarrow> ('f, 'i) event list" where
  "pipeline_epilogue uid ffmpeg_path =
     [ReadEnd, ReleaseCapture (upload_path uid), ReleaseWriter (temp_output_path uid),
      LogInfo DetectionCompleted, UI SpinnerExit,
      UI ProgressBarEmpty, UI StatusEmpty,
      UI SpinnerEnter, LogInfo StartingEncoding,
      RunProcess (encode_cmd ffmpeg_path (temp_output_path uid) (final_output_path uid)),
      LogInfo EncodingCompleted, UI SpinnerExit]"

subsection \<open>Small runs, for evaluation\<close>

definition example_model :: "(nat, nat) yolo" where
  "example_model =
     \<lparr>predict = (\<lambda>conf f. \<lparr>boxes_cls = (if f = 0 then [] else [0, 1, 0]), plot = f + 100\<rparr>),
      names = [0 \<mapsto> ''helmet'', 1 \<mapsto> ''vest'']\<rparr>"

definition example_video :: "nat video" where
  "example_video =
     \<lparr>prop_fps = Finite 0, prop_frame_width = Finite 640, prop_frame_height = Finite 480,
      prop_frame_count = Finite 2, frames = [0, 1]\<rparr>"

definition example_decoder :: "string \<Rightarrow> nat video" where
  "example_decoder path = example_video"

text \<open>A file with a fractional frame rate, width and frame count.\<close>

definition odd_video :: "nat video" where
  "odd_video =
     \<lparr>prop_fps = Finite (30000 / 1001), prop_frame_width = Finite (1281 / 2),
      prop_frame_height = Finite 480, prop_frame_count = Finite (- 3 / 2), frames = []\<rparr>"

text \<open>The same frames in a file whose header reports no frame count.\<close>

definition uncounted_video :: "nat video" where
  "uncounted_video = example_video\<lparr>prop_frame_count := Finite 0\<rparr>"

text \<open>
  A division for the small runs: the exact quotient, which is the double Python computes
  whenever the quotient is a double, as 1/2 and 2/2 are.
\<close>

definition exact_divide :: float_division where
  "exact_divide a b = Finite (of_int a / of_int b)"

text \<open>A file whose header reports one frame and that decodes to two.\<close>

definition short_video :: "nat video" where
  "short_video = example_video\<lparr>prop_frame_count := Finite 1\<rparr>"

definition odd_decoder :: "string \<Rightarrow> nat video" where
  "odd_decoder path = odd_video"

subsection \<open>Auxiliary notions for the proofs\<close>

text \<open>The callback returns normally when called on frame \<open>i\<close>.\<close>

definition callback_ok :: "callback option \<Rightarrow> int \<Rightarrow> int \<Rightarrow> bool" where
  "callback_ok progress_callback total_frames i =
     (case progress_callback of None \<Rightarrow> True
      | Some cb \<Rightarrow> total_frames > 0 \<longrightarrow> snd (cb i total_frames) = Inr ())"

text \<open>The statistics after the loop has run over a list of frames.\<close>

fun loop_stats :: "('f, 'i) yolo \<Rightarrow> counter \<Rightarrow> 'f list \<Rightarrow> counter" where
  "loop_stats model st [] = st"
| "loop_stats model st (frame # rest) =
     loop_stats model
       (if boxes_cls (predict model CONFIDENCE_THRESHOLD frame) = [] then st
        else counter_update st (Counter (detected_names model frame))) rest"

section \<open>Running the computations\<close>

lemma bind_emit [simp]: "bind_io (emit evs) f = (evs @ fst (f ()), snd (f ()))"
  by (simp add: bind_io_def emit_def split: prod.splits)

lemma bind_return [simp]: "bind_io (return_io a) f = f a"
  by (simp add: bind_io_def return_io_def split: prod.splits)

lemma bind_lift_Inr [simp]: "bind_io (lift_io (Inr a)) f = f a"
  by (simp add: bind_io_def lift_io_def split: prod.splits)

lemma bind_lift_Inl [simp]: "bind_io (lift_io (Inl e)) f = ([], Inl e)"
  by (simp add: bind_io_def lift_io_def)

lemma bind_ok [simp]: "bind_io (evs, Inr a) f = (evs @ fst (f a), snd (f a))"
  by (simp add: bind_io_def split: prod.splits)

lemma bind_err [simp]: "bind_io (evs, Inl e) f = (evs, Inl e)"
  by (simp add: bind_io_def)

lemma fst_return [simp]: "fst (return_io a) = []"
  by (simp add: return_io_def)

lemma snd_return [simp]: "snd (return_io a) = Inr a"
  by (simp add: return_io_def)

lemma fst_emit [simp]: "fst (emit evs) = evs"
  by (simp add: emit_def)

lemma snd_emit [simp]: "snd (emit evs) = Inr ()"
  by (simp add: emit_def)

lemma lookup_names_cover:
  "list_all (\<lambda>c. nm c \<noteq> None) cs \<Longrightarrow> \<exists>nms. lookup_names nm cs = Inr nms \<and> length nms = length cs"
  by (induction cs) auto

lemma extract_detections_run:
  assumes "list_all (\<lambda>c. names model c \<noteq> None) (boxes_cls (predict model CONFIDENCE_THRESHOLD frame))"
  shows "extract_detections model total_frames fid (predict model CONFIDENCE_THRESHOLD frame) st =
           (aggregate_events model total_frames fid frame,
            Inr (if boxes_cls (predict model CONFIDENCE_THRESHOLD frame) = [] then st
                 else counter_update st (Counter (detected_names model frame))))"
proof -
  obtain nms where "lookup_names (names model) (boxes_cls (predict model CONFIDENCE_THRESHOLD frame)) = Inr nms"
    using lookup_names_cover [OF assms] by blast
  then show ?thesis
    by (simp add: extract_detections_def aggregate_events_def detected_names_def Let_def return_io_def)
qed

lemma report_progress_run:
  assumes "callback_ok cb total_frames fid"
  shows "report_progress cb fid total_frames = (progress_events cb total_frames fid, Inr ())"
  using assms
  by (auto simp: report_progress_def progress_events_def callback_ok_def call_callback_def return_io_def
      split: option.splits prod.splits)

lemma loop_body_run:
  assumes "list_all (\<lambda>c. names model c \<noteq> None) (boxes_cls (predict model CONFIDENCE_THRESHOLD frame))"
    and "callback_ok cb total_frames (frame_id st + 1)"
  shows "loop_body model cb total_frames frame st =
           (inference_events frame @ aggregate_events model total_frames (frame_id st + 1) frame
              @ progress_events cb total_frames (frame_id st + 1) @ write_events model frame,
            Inr \<lparr>frame_id = frame_id st + 1,
                 stats = (if boxes_cls (predict model CONFIDENCE_THRESHOLD frame) = [] then stats st
                          else counter_update (stats st) (Counter (detected_names model frame)))\<rparr>)"
  by (simp add: loop_body_def Let_def extract_detections_run [OF assms(1)]
      report_progress_run [OF assms(2)] inference_events_def write_events_def)

lemma frame_loop_run:
  assumes "names_cover model fs"
    and "\<forall>i. frame_id st < i \<and> i \<le> frame_id st + int (length fs) \<longrightarrow> callback_ok cb total_frames i"
  shows "frame_loop model cb total_frames fs st =
           (loop_events model cb total_frames (frame_id st) fs @ [ReadEnd],
            Inr \<lparr>frame_id = frame_id st + int (length fs),
                 stats = loop_stats model (stats st) fs\<rparr>)"
  using assms
proof (induction fs arbitrary: st)
  case Nil
  then show ?case by simp
next
  case (Cons frame rest)
  let ?st' = "\<lparr>frame_id = frame_id st + 1,
                 stats = (if boxes_cls (predict model CONFIDENCE_THRESHOLD frame) = [] then stats st
                          else counter_update (stats st) (Counter (detected_names model frame)))\<rparr>"
  have cov: "list_all (\<lambda>c. names model c \<noteq> None) (boxes_cls (predict model CONFIDENCE_THRESHOLD frame))"
    and cov': "names_cover model rest"
    using Cons.prems(1) by (simp_all add: names_cover_def)
  have ok: "callback_ok cb total_frames (frame_id st + 1)"
    using Cons.prems(2) by simp
  have ok': "\<forall>i. frame_id ?st' < i \<and> i \<le> frame_id ?st' + int (length rest) \<longrightarrow> callback_ok cb total_frames i"
    using Cons.prems(2) by simp
  show ?case
    by (simp add: loop_body_run [OF cov ok] Cons.IH [OF cov' ok'] frame_events_def)
qed


lemma get_video_properties_run:
  "read_properties (decoder p) = Inr x \<Longrightarrow>
   get_video_properties decoder p = ([OpenCapture p, ReleaseCapture p], Inr x)"
  by (simp add: get_video_properties_def)

lemma callback_returns_ok:
  assumes "callback_returns cb total_frames n"
  shows "\<forall>i. 0 < i \<and> i \<le> 0 + int n \<longrightarrow> callback_ok cb total_frames i"
  using assms
  by (auto simp: callback_returns_def callback_ok_def list_all_iff split: option.splits)

lemma process_video_with_yolo_run:
  fixes model :: "('f, 'i) yolo"
  assumes props: "read_properties (decoder input_path) = Inr (fps, w, h, total_frames)"
    and cover: "names_cover model (frames (decoder input_path))"
    and cb: "callback_returns progress_callback total_frames (length (frames (decoder input_path)))"
  shows "process_video_with_yolo decoder input_path output_path model progress_callback =
           ([OpenCapture input_path, OpenCapture input_path, ReleaseCapture input_path,
             OpenWriter output_path VIDEO_CODEC fps w h, LogInfo StartingDetection]
              @ loop_events model progress_callback total_frames 0 (frames (decoder input_path))
              @ [ReadEnd, ReleaseCapture input_path, ReleaseWriter output_path,
                 LogInfo DetectionCompleted],
            Inr (loop_stats model [] (frames (decoder input_path))))"
proof -
  let ?st = "\<lparr>frame_id = 0, stats = []\<rparr>"
  have ok: "\<forall>i. frame_id ?st < i \<and> i \<le> frame_id ?st + int (length (frames (decoder input_path)))
              \<longrightarrow> callback_ok progress_callback total_frames i"
    using callback_returns_ok [OF cb] by simp
  show ?thesis
    by (simp add: process_video_with_yolo_def get_video_properties_run [of decoder input_path, OF props]
        frame_loop_run [OF cover ok])
qed

subsection \<open>Counters\<close>






lemma counter_get_Nil [simp]: "counter_get [] k = 0"
  by (simp add: counter_get_def)


















subsection \<open>Observations of the events of the loop\<close>

lemma read_frames_append: "read_frames (a @ b) = read_frames a @ read_frames b"
  by (induction a rule: read_frames.induct) simp_all

lemma inferred_frames_append: "inferred_frames (a @ b) = inferred_frames a @ inferred_frames b"
  by (induction a rule: inferred_frames.induct) simp_all

lemma written_frames_append: "written_frames (a @ b) = written_frames a @ written_frames b"
  by (induction a rule: written_frames.induct) simp_all

lemma progress_calls_append: "progress_calls (a @ b) = progress_calls a @ progress_calls b"
  by (induction a rule: progress_calls.induct) simp_all

lemma run_processes_append: "run_processes (a @ b) = run_processes a @ run_processes b"
  by (induction a rule: run_processes.induct) simp_all

lemma read_frames_UI: "read_frames (map UI uis) = []"
  by (induction uis) simp_all

lemma inferred_frames_UI: "inferred_frames (map UI uis) = []"
  by (induction uis) simp_all

lemma written_frames_UI: "written_frames (map UI uis) = []"
  by (induction uis) simp_all

lemma progress_calls_UI: "progress_calls (map UI uis) = []"
  by (induction uis) simp_all

lemma run_processes_UI: "run_processes (map UI uis) = []"
  by (induction uis) simp_all

lemma read_frames_frame: "read_frames (frame_events model cb total_frames fid frame) = [frame]"
  by (simp add: frame_events_def inference_events_def aggregate_events_def progress_events_def
      write_events_def read_frames_append read_frames_UI split: option.splits)

lemma inferred_frames_frame:
  "inferred_frames (frame_events model cb total_frames fid frame) = [(frame, CONFIDENCE_THRESHOLD)]"
  by (simp add: frame_events_def inference_events_def aggregate_events_def progress_events_def
      write_events_def inferred_frames_append inferred_frames_UI split: option.splits)

lemma written_frames_frame:
  "written_frames (frame_events model cb total_frames fid frame)
     = [plot (predict model CONFIDENCE_THRESHOLD frame)]"
  by (simp add: frame_events_def inference_events_def aggregate_events_def progress_events_def
      write_events_def written_frames_append written_frames_UI split: option.splits)

lemma progress_calls_frame:
  "progress_calls (frame_events model cb total_frames fid frame)
     = (if cb \<noteq> None \<and> total_frames > 0 then [(fid, total_frames)] else [])"
  by (simp add: frame_events_def inference_events_def aggregate_events_def progress_events_def
      write_events_def progress_calls_append progress_calls_UI split: option.splits)

lemma run_processes_frame: "run_processes (frame_events model cb total_frames fid frame) = []"
  by (simp add: frame_events_def inference_events_def aggregate_events_def progress_events_def
      write_events_def run_processes_append run_processes_UI split: option.splits)

lemma read_frames_loop: "read_frames (loop_events model cb total_frames fid fs) = fs"
  by (induction fs arbitrary: fid) (simp_all add: read_frames_append read_frames_frame)

lemma inferred_frames_loop:
  "inferred_frames (loop_events model cb total_frames fid fs)
     = map (\<lambda>f. (f, CONFIDENCE_THRESHOLD)) fs"
  by (induction fs arbitrary: fid) (simp_all add: inferred_frames_append inferred_frames_frame)

lemma written_frames_loop:
  "written_frames (loop_events model cb total_frames fid fs)
     = map (\<lambda>f. plot (predict model CONFIDENCE_THRESHOLD f)) fs"
  by (induction fs arbitrary: fid) (simp_all add: written_frames_append written_frames_frame)

lemma run_processes_loop: "run_processes (loop_events model cb total_frames fid fs) = []"
  by (induction fs arbitrary: fid) (simp_all add: run_processes_append run_processes_frame)

lemma upto_shift: "[fid + 1..fid + int (Suc n)] = (fid + 1) # [fid + 1 + 1..fid + 1 + int n]"
  by (simp add: upto_rec1 add.commute add.left_commute)

lemma progress_calls_loop:
  "progress_calls (loop_events model cb total_frames fid fs)
     = (if cb \<noteq> None \<and> total_frames > 0
        then map (\<lambda>i. (i, total_frames)) [fid + 1..fid + int (length fs)] else [])"
proof (induction fs arbitrary: fid)
  case Nil
  then show ?case by simp
next
  case (Cons frame rest)
  show ?case
    using upto_shift [of fid "length rest"]
    by (simp add: progress_calls_append progress_calls_frame Cons.IH)
qed

section \<open>The properties of the pipeline\<close>

subsection \<open>Video properties\<close>

lemma py_int_truncates: "py_int (Finite r) = Inr n \<Longrightarrow> is_truncation r n"
  by (auto simp: is_truncation_def split: if_splits) linarith+

lemma is_truncation_unique: "is_truncation r n \<Longrightarrow> is_truncation r m \<Longrightarrow> n = m"
  unfolding is_truncation_def by linarith

text \<open>
  Claim C8. \<^verbatim>\<open>get_video_properties\<close> returns the default frame rate 25 when the decoder
  reports a falsy frame rate (the float zero), and the reported frame rate unchanged
  otherwise; the width, the height and the frame count are the reported values truncated
  towards zero to integers. The reported width, height and frame count are finite floats
  here: \<^verbatim>\<open>int\<close> raises on the others.
\<close>

theorem get_video_properties_reports:
  assumes "prop_frame_width (decoder video_path) = Finite w"
    and "prop_frame_height (decoder video_path) = Finite h"
    and "prop_frame_count (decoder video_path) = Finite n"
  shows "\<exists>width height total_frames.
           snd (get_video_properties decoder video_path)
             = Inr (if prop_fps (decoder video_path) = Finite 0 then PyInt 25
                    else PyFloat (prop_fps (decoder video_path)),
                    width, height, total_frames)
           \<and> is_truncation w width \<and> is_truncation h height \<and> is_truncation n total_frames"
proof -
  obtain width height total_frames
    where w: "py_int (Finite w) = Inr width" and h: "py_int (Finite h) = Inr height"
      and n: "py_int (Finite n) = Inr total_frames"
    by simp
  have "read_properties (decoder video_path)
          = Inr (py_or (prop_fps (decoder video_path)) DEFAULT_FPS, width, height, total_frames)"
    using w h n by (simp add: read_properties_def assms del: py_int.simps)
  then have run: "snd (get_video_properties decoder video_path)
          = Inr (py_or (prop_fps (decoder video_path)) DEFAULT_FPS, width, height, total_frames)"
    by (simp add: get_video_properties_def)
  have fps: "py_or (prop_fps (decoder video_path)) DEFAULT_FPS
          = (if prop_fps (decoder video_path) = Finite 0 then PyInt 25
             else PyFloat (prop_fps (decoder video_path)))"
    by (simp add: py_or_def float_truthy_def DEFAULT_FPS_def)
  have "snd (get_video_properties decoder video_path)
             = Inr (if prop_fps (decoder video_path) = Finite 0 then PyInt 25
                    else PyFloat (prop_fps (decoder video_path)),
                    width, height, total_frames)
           \<and> is_truncation w width \<and> is_truncation h height \<and> is_truncation n total_frames"
    using run py_int_truncates [OF w] py_int_truncates [OF h] py_int_truncates [OF n]
    unfolding fps by simp
  then show ?thesis by blast
qed

text \<open>
  A file reporting 29.97 frames per second, a width of 640.5 and a frame count of -1.5:
  the frame rate is kept, the others are truncated towards zero.
\<close>

theorem get_video_properties_reports_witness:
  "snd (get_video_properties odd_decoder ''in.mp4''
          :: (nat, nat, pynum \<times> int \<times> int \<times> int) io)
     = Inr (PyFloat (Finite (30000 / 1001)), 640, 480, - 1)"
proof -
  obtain width height total_frames
    where run: "snd (get_video_properties odd_decoder ''in.mp4''
                       :: (nat, nat, pynum \<times> int \<times> int \<times> int) io)
                  = Inr (PyFloat (Finite (30000 / 1001)), width, height, total_frames)"
      and w: "is_truncation (1281 / 2) width" and h: "is_truncation 480 height"
      and n: "is_truncation (- 3 / 2) total_frames"
    using get_video_properties_reports [of odd_decoder "''in.mp4''" "1281 / 2" 480 "- 3 / 2"]
    by (auto simp: odd_decoder_def odd_video_def)
  have "width = 640"
    by (rule is_truncation_unique [OF w]) (simp add: is_truncation_def)
  moreover have "height = 480"
    by (rule is_truncation_unique [OF h]) (simp add: is_truncation_def)
  moreover have "total_frames = - 1"
    by (rule is_truncation_unique [OF n]) (simp add: is_truncation_def)
  ultimately show ?thesis
    using run by simp
qed

subsection \<open>The hand-off to the transcoder\<close>

text \<open>
  Claim C10. \<^verbatim>\<open>encode_to_h264\<close> returns normally whatever the exit status of the
  transcoder is: the events and the result of the call do not depend on \<open>returncode\<close>, so a
  failed encoding cannot be told from a successful one by the caller.
\<close>

theorem encode_to_h264_ignores_exit_status:
  "encode_to_h264 ffmpeg_path returncode input_path output_path
     = ([LogInfo StartingEncoding,
         RunProcess (encode_cmd ffmpeg_path input_path output_path),
         LogInfo EncodingCompleted], Inr ())"
  by (simp add: encode_to_h264_def subprocess_run_def)

theorem encode_to_h264_ignores_exit_status_witness:
  "(encode_to_h264 ''ffmpeg'' 1 ''a.mp4'' ''b.mp4'' :: (nat, nat, unit) io)
     = encode_to_h264 ''ffmpeg'' 0 ''a.mp4'' ''b.mp4''
   \<and> snd (encode_to_h264 ''ffmpeg'' 1 ''a.mp4'' ''b.mp4'' :: (nat, nat, unit) io) = Inr ()"
  by (simp add: encode_to_h264_ignores_exit_status)

subsection \<open>The frame loop\<close>

lemma example_props: "read_properties (example_decoder p) = Inr (PyInt 25, 640, 480, 2)"
  by (simp add: read_properties_def example_decoder_def example_video_def py_or_def
      float_truthy_def DEFAULT_FPS_def)

lemma example_cover: "names_cover example_model (frames (example_decoder p))"
  by (simp add: names_cover_def example_model_def example_decoder_def example_video_def)

lemma example_callback_returns:
  "callback_returns (Some (update_progress exact_divide)) 2 (length (frames (example_decoder p)))"
  by (simp add: callback_returns_def update_progress_def py_truediv_def exact_divide_def
      example_decoder_def example_video_def upto_rec1)

lemma ReadEnd_not_UI: "ReadEnd \<notin> set (map UI uis)"
  by auto

lemma ReadEnd_not_in_frame: "ReadEnd \<notin> set (frame_events model cb total_frames fid frame)"
  by (auto simp: frame_events_def inference_events_def aggregate_events_def progress_events_def
      write_events_def split: option.splits if_splits)

lemma ReadEnd_not_in_loop: "ReadEnd \<notin> set (loop_events model cb total_frames fid fs)"
  by (induction fs arbitrary: fid) (simp_all add: ReadEnd_not_in_frame)



text \<open>
  The theorems on \<^verbatim>\<open>process_video_with_yolo\<close> are about the runs in which no external
  component raises: the decoder reports finite properties, \<^verbatim>\<open>model.names\<close> has every
  detected class index, and the callback returns normally; then the function returns.
\<close>

text \<open>
  Claim C2. \<^verbatim>\<open>process_video_with_yolo\<close> calls the model exactly once on every frame the
  decoder yields, in the order of the frames, with the configured confidence threshold:
  no frame is skipped and none is processed twice, and the loop ends at the single read
  that reports no more frames.
\<close>

theorem process_video_with_yolo_infers_every_frame_once:
  assumes "read_properties (decoder input_path) = Inr (fps, w, h, total_frames)"
    and "names_cover model (frames (decoder input_path))"
    and "callback_returns progress_callback total_frames (length (frames (decoder input_path)))"
  shows "read_frames (fst (process_video_with_yolo decoder input_path output_path model
                             progress_callback)) = frames (decoder input_path)
       \<and> inferred_frames (fst (process_video_with_yolo decoder input_path output_path model
                                  progress_callback))
           = map (\<lambda>frame. (frame, CONFIDENCE_THRESHOLD)) (frames (decoder input_path))
       \<and> count_list (fst (process_video_with_yolo decoder input_path output_path model
                             progress_callback)) ReadEnd = 1"
proof -
  note run = process_video_with_yolo_run
                 [where decoder = decoder and input_path = input_path, OF assms]
  have "count_list (loop_events model progress_callback total_frames 0
                      (frames (decoder input_path))) ReadEnd = 0"
    by (simp add: ReadEnd_not_in_loop)
  then show ?thesis
    by (simp add: run read_frames_append read_frames_loop inferred_frames_append
        inferred_frames_loop)
qed

theorem process_video_with_yolo_infers_every_frame_once_witness:
  "inferred_frames (fst (process_video_with_yolo example_decoder ''in.mp4'' ''out.mp4''
                           example_model (Some (update_progress exact_divide))))
     = [(0, CONFIDENCE_THRESHOLD), (1, CONFIDENCE_THRESHOLD)]"
  using process_video_with_yolo_infers_every_frame_once
          [of example_decoder "''in.mp4''" "PyInt 25" 640 480 2 example_model
              "Some (update_progress exact_divide)" "''out.mp4''",
           OF example_props example_cover example_callback_returns]
  by (simp add: example_decoder_def example_video_def)



text \<open>
  Claim C4. For every frame read from the input exactly one annotated frame, the plot of
  the model result of that frame, is written to the output writer, also for frames without
  detections: as many frames are written as were read.
\<close>

theorem process_video_with_yolo_writes_every_frame_once:
  assumes "read_properties (decoder input_path) = Inr (fps, w, h, total_frames)"
    and "names_cover model (frames (decoder input_path))"
    and "callback_returns progress_callback total_frames (length (frames (decoder input_path)))"
  shows "written_frames (fst (process_video_with_yolo decoder input_path output_path model
                                progress_callback))
           = map (\<lambda>frame. plot (predict model CONFIDENCE_THRESHOLD frame))
               (frames (decoder input_path))
       \<and> length (written_frames (fst (process_video_with_yolo decoder input_path output_path
                                         model progress_callback)))
           = length (read_frames (fst (process_video_with_yolo decoder input_path output_path
                                         model progress_callback)))"
proof -
  note run = process_video_with_yolo_run
                 [where decoder = decoder and input_path = input_path, OF assms]
  show ?thesis
    by (simp add: run written_frames_append written_frames_loop read_frames_append
        read_frames_loop)
qed

theorem process_video_with_yolo_writes_every_frame_once_witness:
  "written_frames (fst (process_video_with_yolo example_decoder ''in.mp4'' ''out.mp4''
                          example_model (Some (update_progress exact_divide)))) = [100, 101]"
  using process_video_with_yolo_writes_every_frame_once
          [of example_decoder "''in.mp4''" "PyInt 25" 640 480 2 example_model
              "Some (update_progress exact_divide)" "''out.mp4''",
           OF example_props example_cover example_callback_returns]
  by (simp add: example_decoder_def example_video_def example_model_def)

lemma progress_trace_append: "progress_trace (a @ b) = progress_trace a @ progress_trace b"
  by (induction a rule: progress_trace.induct) simp_all

lemma progress_trace_UI: "progress_trace (map UI uis) = map UI uis"
  by (induction uis) simp_all

lemma progress_trace_frame:
  "progress_trace (frame_events model cb total_frames fid frame)
     = progress_events cb total_frames fid"
  by (simp add: frame_events_def inference_events_def aggregate_events_def progress_events_def
      write_events_def progress_trace_append progress_trace_UI split: option.splits)

lemma progress_trace_loop:
  "progress_trace (loop_events model cb total_frames fid fs)
     = concat (map (progress_events cb total_frames) [fid + 1..fid + int (length fs)])"
proof (induction fs arbitrary: fid)
  case Nil
  then show ?case by simp
next
  case (Cons frame rest)
  show ?case
    using upto_shift [of fid "length rest"]
    by (simp add: progress_trace_append progress_trace_frame Cons.IH)
qed

text \<open>
  Claim C6. With a callback and a positive reported frame count, the callback is called
  once per frame, with the frame indices 1, 2, ..., N (N the number of frames read) and
  always the same total: the calls, each followed by what the callback does on it, are
  exactly those of the indices 1 to N in order. Without a callback, or when the reported
  frame count is not positive, it is never called.
\<close>

theorem process_video_with_yolo_progress_calls:
  assumes "read_properties (decoder input_path) = Inr (fps, w, h, total_frames)"
    and "names_cover model (frames (decoder input_path))"
    and "callback_returns progress_callback total_frames (length (frames (decoder input_path)))"
  shows "progress_trace (fst (process_video_with_yolo decoder input_path output_path model
                                progress_callback))
           = (case progress_callback of
                None \<Rightarrow> []
              | Some cb \<Rightarrow>
                  if total_frames > 0
                  then concat (map (\<lambda>i. ProgressCall i total_frames
                                          # map UI (fst (cb i total_frames)))
                                 [1..int (length (frames (decoder input_path)))])
                  else [])
       \<and> progress_calls (fst (process_video_with_yolo decoder input_path output_path model
                                  progress_callback))
           = (if progress_callback \<noteq> None \<and> total_frames > 0
              then map (\<lambda>i. (i, total_frames)) [1..int (length (frames (decoder input_path)))]
              else [])"
proof -
  note run = process_video_with_yolo_run
                 [where decoder = decoder and input_path = input_path, OF assms]
  have calls: "progress_calls (fst (process_video_with_yolo decoder input_path output_path model
                                  progress_callback))
           = (if progress_callback \<noteq> None \<and> total_frames > 0
              then map (\<lambda>i. (i, total_frames)) [1..int (length (frames (decoder input_path)))]
              else [])"
    by (simp add: run progress_calls_append progress_calls_loop)
  have "progress_trace (fst (process_video_with_yolo decoder input_path output_path model
                                progress_callback))
          = concat (map (progress_events progress_callback total_frames)
                      [1..int (length (frames (decoder input_path)))])"
    by (simp add: run progress_trace_append progress_trace_loop)
  also have "\<dots> = (case progress_callback of
                None \<Rightarrow> []
              | Some cb \<Rightarrow>
                  if total_frames > 0
                  then concat (map (\<lambda>i. ProgressCall i total_frames
                                          # map UI (fst (cb i total_frames)))
                                 [1..int (length (frames (decoder input_path)))])
                  else [])"
  proof -
    have ev: "progress_events progress_callback total_frames
                = (\<lambda>i. case progress_callback of
                          None \<Rightarrow> []
                        | Some cb \<Rightarrow>
                            if total_frames > 0
                            then ProgressCall i total_frames # map UI (fst (cb i total_frames))
                            else [])"
      by (rule ext) (simp add: progress_events_def)
    show ?thesis
      unfolding ev by (cases progress_callback) simp_all
  qed
  finally show ?thesis
    using calls by simp
qed

theorem process_video_with_yolo_progress_calls_witness:
  "progress_trace (fst (process_video_with_yolo example_decoder ''in.mp4'' ''out.mp4''
                          example_model (Some (update_progress exact_divide))))
     = [ProgressCall 1 2, UI (ProgressBarSet (PyFloat (Finite (1 / 2)))), UI (StatusText 1 2),
        ProgressCall 2 2, UI (ProgressBarSet (PyFloat (Finite 1))), UI (StatusText 2 2)]
   \<and> progress_calls (fst (process_video_with_yolo example_decoder ''in.mp4'' ''out.mp4''
                            example_model (Some (update_progress exact_divide))))
     = [(1, 2), (2, 2)]"
proof -
  have upto: "[1..2] = [1, 2 :: int]"
    by (simp add: upto_rec1)
  have n: "length (frames (example_decoder ''in.mp4'')) = 2"
    by (simp add: example_decoder_def example_video_def)
  have "update_progress exact_divide 1 2
          = ([ProgressBarSet (PyFloat (Finite (1 / 2))), StatusText 1 2], Inr ())"
    and "update_progress exact_divide 2 2
          = ([ProgressBarSet (PyFloat (Finite 1)), StatusText 2 2], Inr ())"
    by (simp_all add: update_progress_def py_truediv_def exact_divide_def)
  then show ?thesis
    using process_video_with_yolo_progress_calls
            [of example_decoder "''in.mp4''" "PyInt 25" 640 480 2 example_model
                "Some (update_progress exact_divide)" "''out.mp4''",
             OF example_props example_cover example_callback_returns]
    by (simp add: n upto)
qed

subsection \<open>The pipeline of \<^verbatim>\<open>process_uploaded_video\<close>\<close>

lemma process_uploaded_video_run:
  assumes props: "read_properties uploaded = Inr (fps, w, h, total_frames)"
    and cover: "names_cover model (frames uploaded)"
    and cb: "callback_returns (Some (update_progress true_divide)) total_frames
               (length (frames uploaded))"
  shows "process_uploaded_video true_divide uid decoder uploaded model ffmpeg_path returncode =
           (pipeline_prologue uid fps w h
              @ loop_events model (Some (update_progress true_divide)) total_frames 0 (frames uploaded)
              @ pipeline_epilogue uid ffmpeg_path,
            Inr (upload_path uid, final_output_path uid, loop_stats model [] (frames uploaded)))"
proof -
  let ?dec = "decoder(upload_path uid := uploaded)"
  have p: "read_properties (?dec (upload_path uid)) = Inr (fps, w, h, total_frames)"
    using props by simp
  have c: "names_cover model (frames (?dec (upload_path uid)))"
    using cover by simp
  have r: "callback_returns (Some (update_progress true_divide)) total_frames
             (length (frames (?dec (upload_path uid))))"
    using cb by simp
  note run = process_video_with_yolo_run
               [where decoder = ?dec and input_path = "upload_path uid", OF p c r]
  show ?thesis
    by (simp add: process_uploaded_video_def Let_def save_uploaded_file_def with_spinner_def
        run encode_to_h264_def subprocess_run_def pipeline_prologue_def pipeline_epilogue_def)
qed

lemma run_processes_prologue: "run_processes (pipeline_prologue uid fps w h) = []"
  by (simp add: pipeline_prologue_def)

lemma run_processes_epilogue:
  "run_processes (pipeline_epilogue uid ffmpeg_path)
     = [encode_cmd ffmpeg_path (temp_output_path uid) (final_output_path uid)]"
  by (simp add: pipeline_epilogue_def)

lemma precedes_first:
  "a \<notin> set xs \<Longrightarrow> precedes a b (xs @ a # ys) = (b \<in> set ys)"
proof -
  assume "a \<notin> set xs"
  then have "dropWhile (\<lambda>e. e \<noteq> a) (xs @ a # ys) = a # ys"
    by (induction xs) auto
  then show ?thesis
    by (simp add: precedes_def)
qed

lemma example_video_props: "read_properties example_video = Inr (PyInt 25, 640, 480, 2)"
  by (simp add: read_properties_def example_video_def py_or_def float_truthy_def DEFAULT_FPS_def)

lemma example_video_cover: "names_cover example_model (frames example_video)"
  by (simp add: names_cover_def example_model_def example_video_def)

lemma example_video_callback:
  "callback_returns (Some (update_progress exact_divide)) 2 (length (frames example_video))"
  by (simp add: callback_returns_def update_progress_def py_truediv_def exact_divide_def
      example_video_def upto_rec1)

lemma example_loop_events:
  "loop_events example_model (Some (update_progress exact_divide)) 2 0 [0, 1]
     = [ReadFrame 0, Inference 0 CONFIDENCE_THRESHOLD,
        ProgressCall 1 2, UI (ProgressBarSet (PyFloat (Finite (1 / 2)))), UI (StatusText 1 2),
        WriteFrame 100,
        ReadFrame 1, Inference 1 CONFIDENCE_THRESHOLD,
        StatsUpdate [(''helmet'', 2), (''vest'', 1)],
        LogInfo (FrameCounts 2 2 [(''helmet'', 2), (''vest'', 1)]),
        ProgressCall 2 2, UI (ProgressBarSet (PyFloat (Finite 1))), UI (StatusText 2 2),
        WriteFrame 101]"
  by (simp add: example_model_def frame_events_def inference_events_def
      aggregate_events_def progress_events_def write_events_def detected_names_def
      update_progress_def py_truediv_def exact_divide_def Counter_def counter_get_def)

lemma example_spec_loop_events:
  "spec_loop_events example_model (Some (update_progress exact_divide)) 2 0 [0, 1]
     = [ReadFrame 0, Inference 0 CONFIDENCE_THRESHOLD,
        WriteFrame 100,
        ProgressCall 1 2, UI (ProgressBarSet (PyFloat (Finite (1 / 2)))), UI (StatusText 1 2),
        ReadFrame 1, Inference 1 CONFIDENCE_THRESHOLD,
        StatsUpdate [(''helmet'', 2), (''vest'', 1)],
        LogInfo (FrameCounts 2 2 [(''helmet'', 2), (''vest'', 1)]),
        WriteFrame 101,
        ProgressCall 2 2, UI (ProgressBarSet (PyFloat (Finite 1))), UI (StatusText 2 2)]"
  by (simp add: example_model_def spec_frame_events_def inference_events_def
      aggregate_events_def progress_events_def write_events_def detected_names_def
      update_progress_def py_truediv_def exact_divide_def Counter_def counter_get_def)

lemma example_frames: "frames example_video = [0, 1]"
  by (simp add: example_video_def)

text \<open>
  The hypothesis on the callback is needed: when the header reports fewer frames than the
  decoder yields, the progress bar refuses the value 2/1 on the second frame, the run ends
  there with one frame written and the transcoder is not run.
\<close>

lemma process_uploaded_video_short:
  "snd (process_uploaded_video exact_divide ''u'' example_decoder short_video example_model
          ''ffmpeg'' 0) = Inl StreamlitAPIException
   \<and> written_frames (fst (process_uploaded_video exact_divide ''u'' example_decoder short_video
                            example_model ''ffmpeg'' 0)) = [100]
   \<and> run_processes (fst (process_uploaded_video exact_divide ''u'' example_decoder short_video
                           example_model ''ffmpeg'' 0)) = []"
  by (simp add: process_uploaded_video_def Let_def save_uploaded_file_def with_spinner_def
      process_video_with_yolo_def get_video_properties_def read_properties_def py_or_def
      float_truthy_def short_video_def example_video_def example_model_def loop_body_def
      extract_detections_def report_progress_def call_callback_def update_progress_def
      py_truediv_def exact_divide_def Counter_def counter_update_def counter_get_def
      written_frames_append run_processes_append)

text \<open>
  Claim C1, as the specification states it: in every frame the annotated frame is written
  before progress is reported. The source reports progress first: on the first frame of the
  example the callback is called before the frame is written, not after, and the events of
  the run are not those of the order of the specification.
\<close>

theorem per_frame_order_counterexample:
  "precedes (ProgressCall 1 2) (WriteFrame 100)
     (fst (process_video_with_yolo example_decoder ''in.mp4'' ''out.mp4'' example_model
             (Some (update_progress exact_divide))))
   \<and> \<not> precedes (WriteFrame 100) (ProgressCall 1 2)
     (fst (process_video_with_yolo example_decoder ''in.mp4'' ''out.mp4'' example_model
             (Some (update_progress exact_divide))))
   \<and> fst (process_video_with_yolo example_decoder ''in.mp4'' ''out.mp4'' example_model
             (Some (update_progress exact_divide)))
       \<noteq> [OpenCapture ''in.mp4'', OpenCapture ''in.mp4'', ReleaseCapture ''in.mp4'',
           OpenWriter ''out.mp4'' VIDEO_CODEC (PyInt 25) 640 480, LogInfo StartingDetection]
          @ spec_loop_events example_model (Some (update_progress exact_divide)) 2 0 [0, 1]
          @ [ReadEnd, ReleaseCapture ''in.mp4'', ReleaseWriter ''out.mp4'',
             LogInfo DetectionCompleted]"
proof -
  have frames: "frames (example_decoder ''in.mp4'') = [0, 1]"
    by (simp add: example_decoder_def example_video_def)
  have trace: "fst (process_video_with_yolo example_decoder ''in.mp4'' ''out.mp4''
                      example_model (Some (update_progress exact_divide)))
      = [OpenCapture ''in.mp4'', OpenCapture ''in.mp4'', ReleaseCapture ''in.mp4'',
         OpenWriter ''out.mp4'' VIDEO_CODEC (PyInt 25) 640 480, LogInfo StartingDetection]
        @ loop_events example_model (Some (update_progress exact_divide)) 2 0 [0, 1]
        @ [ReadEnd, ReleaseCapture ''in.mp4'', ReleaseWriter ''out.mp4'',
           LogInfo DetectionCompleted]"
    using process_video_with_yolo_run
        [where decoder = example_decoder and input_path = "''in.mp4''",
         OF example_props example_cover example_callback_returns]
    by (simp add: frames)
  show ?thesis
    unfolding trace example_loop_events example_spec_loop_events
    by (simp add: precedes_def)
qed

text \<open>
  Claim C1, amended. For every frame the decoder yields the steps are, in this order: read
  the frame, run inference on it, add its per-class counts to the statistics (when it has
  detections), report progress, write the annotated frame. The transcoder is run once,
  after the read that ends the loop: no process is run before or during the loop. As for
  the loop, this is about the runs in which nothing raises: the properties are finite, the
  names cover the detected classes and the progress bar accepts every value, which it does
  when the reported frame count is not below the number of frames.
\<close>

theorem process_uploaded_video_order:
  assumes "read_properties uploaded = Inr (fps, w, h, total_frames)"
    and "names_cover model (frames uploaded)"
    and "callback_returns (Some (update_progress true_divide)) total_frames
           (length (frames uploaded))"
  shows "fst (process_uploaded_video true_divide uid decoder uploaded model ffmpeg_path returncode)
           = pipeline_prologue uid fps w h
               @ loop_events model (Some (update_progress true_divide)) total_frames 0 (frames uploaded)
               @ pipeline_epilogue uid ffmpeg_path
       \<and> run_processes (pipeline_prologue uid fps w h
               @ loop_events model (Some (update_progress true_divide)) total_frames 0 (frames uploaded)) = []
       \<and> run_processes (pipeline_epilogue uid ffmpeg_path :: ('f, 'i) event list)
           = [encode_cmd ffmpeg_path (temp_output_path uid) (final_output_path uid)]"
  by (simp add: process_uploaded_video_run [OF assms] run_processes_append
      run_processes_prologue run_processes_loop run_processes_epilogue)

theorem process_uploaded_video_order_witness:
  "fst (process_uploaded_video exact_divide ''u'' example_decoder example_video example_model ''ffmpeg'' 1)
     = pipeline_prologue ''u'' (PyInt 25) 640 480
         @ [ReadFrame 0, Inference 0 CONFIDENCE_THRESHOLD,
            ProgressCall 1 2, UI (ProgressBarSet (PyFloat (Finite (1 / 2)))), UI (StatusText 1 2),
            WriteFrame 100,
            ReadFrame 1, Inference 1 CONFIDENCE_THRESHOLD,
            StatsUpdate [(''helmet'', 2), (''vest'', 1)],
            LogInfo (FrameCounts 2 2 [(''helmet'', 2), (''vest'', 1)]),
            ProgressCall 2 2, UI (ProgressBarSet (PyFloat (Finite 1))), UI (StatusText 2 2),
            WriteFrame 101]
         @ pipeline_epilogue ''u'' ''ffmpeg''"
proof -
  have "fst (process_uploaded_video exact_divide ''u'' example_decoder example_video example_model
               ''ffmpeg'' 1)
          = pipeline_prologue ''u'' (PyInt 25) 640 480
              @ loop_events example_model (Some (update_progress exact_divide)) 2 0 (frames example_video)
              @ pipeline_epilogue ''u'' ''ffmpeg''"
    using process_uploaded_video_order
            [of example_video "PyInt 25" 640 480 2 example_model exact_divide "''u''"
                example_decoder "''ffmpeg''" 1,
             OF example_video_props example_video_cover example_video_callback]
    by blast
  then show ?thesis
    by (simp only: example_frames example_loop_events)
qed

text \<open>
  Claim C5. After the frame loop the intermediate file is handed to the transcoder exactly
  once: the only process run is ffmpeg, with the intermediate file (the path given to the
  writer) as input, the codec libx264, the pixel format yuv420p and the final path, and it
  is run after the read that ends the loop. The loop completes when nothing raises in it:
  the hypotheses say so, the last one for the callback \<^verbatim>\<open>update_progress\<close>.
\<close>

theorem process_uploaded_video_encodes_once:
  fixes model :: "('f, 'i) yolo"
  assumes "read_properties uploaded = Inr (fps, w, h, total_frames)"
    and "names_cover model (frames uploaded)"
    and "callback_returns (Some (update_progress true_divide)) total_frames
           (length (frames uploaded))"
  shows "run_processes (fst (process_uploaded_video true_divide uid decoder uploaded model ffmpeg_path
                               returncode))
           = [[ffmpeg_path, ''-y'', ''-i'', temp_output_path uid, ''-vcodec'', ''libx264'',
               ''-pix_fmt'', ''yuv420p'', ''-movflags'', ''+faststart'',
               final_output_path uid]]
       \<and> OpenWriter (temp_output_path uid) VIDEO_CODEC fps w h
           \<in> set (fst (process_uploaded_video true_divide uid decoder uploaded model ffmpeg_path returncode))
       \<and> precedes ReadEnd
           (RunProcess (encode_cmd ffmpeg_path (temp_output_path uid) (final_output_path uid)))
           (fst (process_uploaded_video true_divide uid decoder uploaded model ffmpeg_path returncode))"
proof -
  note run = process_uploaded_video_run [OF assms]
  have cmd: "run_processes (pipeline_epilogue uid ffmpeg_path :: ('f, 'i) event list)
          = [[ffmpeg_path, ''-y'', ''-i'', temp_output_path uid, ''-vcodec'', ''libx264'',
               ''-pix_fmt'', ''yuv420p'', ''-movflags'', ''+faststart'',
               final_output_path uid]]"
    by (simp add: run_processes_epilogue encode_cmd_def H264_CODEC_def PIXEL_FORMAT_def)
  have writer: "OpenWriter (temp_output_path uid) VIDEO_CODEC fps w h
                  \<in> set (pipeline_prologue uid fps w h :: ('f, 'i) event list)"
    by (simp add: pipeline_prologue_def)
  have notin: "ReadEnd \<notin> set (pipeline_prologue uid fps w h
               @ loop_events model (Some (update_progress true_divide)) total_frames 0 (frames uploaded))"
    by (simp add: ReadEnd_not_in_loop pipeline_prologue_def)
  have after: "precedes ReadEnd
           (RunProcess (encode_cmd ffmpeg_path (temp_output_path uid) (final_output_path uid)))
           ((pipeline_prologue uid fps w h
               @ loop_events model (Some (update_progress true_divide)) total_frames 0 (frames uploaded))
            @ pipeline_epilogue uid ffmpeg_path)"
    unfolding pipeline_epilogue_def using precedes_first [OF notin] by simp
  show ?thesis
    using cmd writer after
    by (simp add: run run_processes_append run_processes_prologue run_processes_loop)
qed

theorem process_uploaded_video_encodes_once_witness:
  "run_processes (fst (process_uploaded_video exact_divide ''u'' example_decoder example_video example_model
                         ''ffmpeg'' 1))
     = [[''ffmpeg'', ''-y'', ''-i'', ''outputs/u_temp.mp4'', ''-vcodec'', ''libx264'',
         ''-pix_fmt'', ''yuv420p'', ''-movflags'', ''+faststart'', ''outputs/u_final.mp4'']]"
  using process_uploaded_video_encodes_once
          [of example_video "PyInt 25" 640 480 2 example_model exact_divide "''u''"
              example_decoder "''ffmpeg''" 1,
           OF example_video_props example_video_cover example_video_callback]
  by (simp add: temp_output_path_def final_output_path_def OUTPUT_DIR_def)

subsection \<open>Runs that may raise\<close>

text \<open>
  A property of all the events of a run, also of a run that an exception ends: it holds
  when it holds of every call of the callback with a positive total, of what the callback
  does on such a call, and of every other event.
\<close>

lemma bind_io_events:
  assumes "\<forall>e\<in>set (fst x). P e"
    and "\<And>a. snd x = Inr a \<Longrightarrow> \<forall>e\<in>set (fst (f a)). P e"
  shows "\<forall>e\<in>set (fst (bind_io x f)). P e"
proof (cases x)
  case (Pair evs r)
  show ?thesis
  proof (cases r)
    case (Inl err)
    then show ?thesis using assms(1) Pair by simp
  next
    case (Inr a)
    then show ?thesis using assms Pair by auto
  qed
qed

lemma report_progress_events:
  assumes prog: "\<And>i. 0 < total_frames \<Longrightarrow> P (ProgressCall i total_frames)"
    and ui: "\<And>f i u. cb = Some f \<Longrightarrow> 0 < total_frames \<Longrightarrow> u \<in> set (fst (f i total_frames))
               \<Longrightarrow> P (UI u)"
  shows "\<forall>e\<in>set (fst (report_progress cb fid total_frames)). P e"
proof (cases cb)
  case None
  then show ?thesis by (simp add: report_progress_def)
next
  case (Some f)
  show ?thesis
  proof (cases "0 < total_frames")
    case True
    obtain uis r where call: "f fid total_frames = (uis, r)"
      by (cases "f fid total_frames")
    have "\<forall>u\<in>set uis. P (UI u)"
      using ui [OF Some True, of _ fid] call by simp
    then show ?thesis
      using prog [OF True] by (simp add: report_progress_def Some True call_callback_def call)
  next
    case False
    then show ?thesis by (simp add: report_progress_def Some)
  qed
qed

lemma extract_detections_events:
  assumes other: "\<And>e. (\<forall>i n. e \<noteq> ProgressCall i n) \<Longrightarrow> (\<forall>u. e \<noteq> UI u) \<Longrightarrow> P e"
  shows "\<forall>e\<in>set (fst (extract_detections model total_frames fid results st)). P e"
  by (cases "lookup_names (names model) (boxes_cls results)")
     (auto simp: extract_detections_def Let_def intro: other)

lemma loop_body_events:
  assumes other: "\<And>e. (\<forall>i n. e \<noteq> ProgressCall i n) \<Longrightarrow> (\<forall>u. e \<noteq> UI u) \<Longrightarrow> P e"
    and prog: "\<And>i. 0 < total_frames \<Longrightarrow> P (ProgressCall i total_frames)"
    and ui: "\<And>f i u. cb = Some f \<Longrightarrow> 0 < total_frames \<Longrightarrow> u \<in> set (fst (f i total_frames))
               \<Longrightarrow> P (UI u)"
  shows "\<forall>e\<in>set (fst (loop_body model cb total_frames frame st)). P e"
  unfolding loop_body_def Let_def
  by (intro bind_io_events extract_detections_events report_progress_events)
     (auto intro: other prog ui)

lemma frame_loop_events:
  assumes other: "\<And>e. (\<forall>i n. e \<noteq> ProgressCall i n) \<Longrightarrow> (\<forall>u. e \<noteq> UI u) \<Longrightarrow> P e"
    and prog: "\<And>i. 0 < total_frames \<Longrightarrow> P (ProgressCall i total_frames)"
    and ui: "\<And>f i u. cb = Some f \<Longrightarrow> 0 < total_frames \<Longrightarrow> u \<in> set (fst (f i total_frames))
               \<Longrightarrow> P (UI u)"
  shows "\<forall>e\<in>set (fst (frame_loop model cb total_frames fs st)). P e"
proof (induction fs arbitrary: st)
  case Nil
  show ?case by (simp add: other)
next
  case (Cons frame rest)
  have body: "\<forall>e\<in>set (fst (loop_body model cb total_frames frame st)). P e"
    by (rule loop_body_events [OF other prog ui])
  have "\<forall>e\<in>set (fst (bind_io (loop_body model cb total_frames frame st)
                          (frame_loop model cb total_frames rest))). P e"
    using body Cons.IH by (rule bind_io_events)
  then show ?case
    by (simp add: other)
qed

lemma get_video_properties_events:
  assumes other: "\<And>e. (\<forall>i n. e \<noteq> ProgressCall i n) \<Longrightarrow> (\<forall>u. e \<noteq> UI u) \<Longrightarrow> P e"
  shows "\<forall>e\<in>set (fst (get_video_properties decoder p)). P e"
  by (cases "read_properties (decoder p)")
     (auto simp: get_video_properties_def intro: other)

lemma process_video_with_yolo_events:
  assumes other: "\<And>e. (\<forall>i n. e \<noteq> ProgressCall i n) \<Longrightarrow> (\<forall>u. e \<noteq> UI u) \<Longrightarrow> P e"
    and prog: "\<And>i n. 0 < n \<Longrightarrow> P (ProgressCall i n)"
    and ui: "\<And>f i n u. cb = Some f \<Longrightarrow> 0 < n \<Longrightarrow> u \<in> set (fst (f i n)) \<Longrightarrow> P (UI u)"
  shows "\<forall>e\<in>set (fst (process_video_with_yolo decoder input_path output_path model cb)). P e"
proof -
  have loop: "\<forall>e\<in>set (fst (frame_loop model cb total_frames fs st)). P e"
    for total_frames fs st
    by (rule frame_loop_events [OF other prog ui])
  have props: "\<forall>e\<in>set (fst (get_video_properties decoder input_path :: ('a, 'b, _) io)). P e"
    by (rule get_video_properties_events [OF other])
  have "\<forall>e\<in>set (fst (bind_io (get_video_properties decoder input_path)
             (\<lambda>(fps, width, height, total_frames).
                bind_io (emit [OpenWriter output_path VIDEO_CODEC fps width height,
                               LogInfo StartingDetection]) (\<lambda>_.
                bind_io (frame_loop model cb total_frames (frames (decoder input_path))
                           \<lparr>frame_id = 0, stats = []\<rparr>) (\<lambda>st.
                bind_io (emit [ReleaseCapture input_path, ReleaseWriter output_path,
                               LogInfo DetectionCompleted]) (\<lambda>_.
                return_io (stats st))))))). P e"
    using props
  proof (rule bind_io_events)
    fix a :: "pynum \<times> int \<times> int \<times> int"
    obtain fps width height total_frames where a: "a = (fps, width, height, total_frames)"
      by (cases a)
    have "\<forall>e\<in>set (fst (bind_io (frame_loop model cb total_frames (frames (decoder input_path))
                           \<lparr>frame_id = 0, stats = []\<rparr>) (\<lambda>st.
                bind_io (emit [ReleaseCapture input_path, ReleaseWriter output_path,
                               LogInfo DetectionCompleted]) (\<lambda>_.
                return_io (stats st))))). P e"
      using loop by (rule bind_io_events) (simp add: other)
    then show "\<forall>e\<in>set (fst ((case a of (fps, width, height, total_frames) \<Rightarrow>
                bind_io (emit [OpenWriter output_path VIDEO_CODEC fps width height,
                               LogInfo StartingDetection]) (\<lambda>_.
                bind_io (frame_loop model cb total_frames (frames (decoder input_path))
                           \<lparr>frame_id = 0, stats = []\<rparr>) (\<lambda>st.
                bind_io (emit [ReleaseCapture input_path, ReleaseWriter output_path,
                               LogInfo DetectionCompleted]) (\<lambda>_.
                return_io (stats st))))))). P e"
      by (simp add: a other)
  qed
  then show ?thesis
    by (simp add: process_video_with_yolo_def other)
qed

lemma progress_calls_mem:
  "(i, n) \<in> set (progress_calls tr) \<Longrightarrow> ProgressCall i n \<in> set tr"
  by (induction tr rule: progress_calls.induct) auto

lemma with_spinner_events:
  assumes "\<forall>e\<in>set (fst body). P e" and "P (UI SpinnerEnter)" and "P (UI SpinnerExit)"
  shows "\<forall>e\<in>set (fst (with_spinner body)). P e"
  using assms by (cases body) (simp add: with_spinner_def)

lemma update_progress_events:
  assumes "u \<in> set (fst (update_progress true_divide current tot))" and "0 < tot"
  shows "u \<noteq> ProgressBarSet (PyInt 0)"
  using assms by (auto simp: update_progress_def py_truediv_def split: if_splits)

lemma update_progress_no_zero_division:
  "snd (update_progress true_divide current tot) \<noteq> Inl ZeroDivisionError"
  by (simp add: update_progress_def py_truediv_def)

lemma update_progress_not_positive:
  "tot \<le> 0 \<Longrightarrow>
   update_progress true_divide current tot
     = ([ProgressBarSet (PyInt 0), StatusText current tot], Inr ())"
  by (simp add: update_progress_def)

lemma process_uploaded_video_never_zero:
  "\<forall>e\<in>set (fst (process_uploaded_video true_divide uid decoder uploaded model ffmpeg_path
                   returncode)).
     e \<noteq> UI (ProgressBarSet (PyInt 0))"
proof -
  let ?P = "\<lambda>e :: ('a, 'b) event. e \<noteq> UI (ProgressBarSet (PyInt 0))"
  have run: "\<forall>e\<in>set (fst (process_video_with_yolo dec inp outp model
                             (Some (update_progress true_divide)))). ?P e"
    for dec inp outp
    by (rule process_video_with_yolo_events) (auto dest: update_progress_events)
  have spin: "\<forall>e\<in>set (fst (with_spinner
                 (process_video_with_yolo dec inp outp model
                    (Some (update_progress true_divide))))). ?P e"
    for dec inp outp
    by (rule with_spinner_events [OF run]) simp_all
  have enc: "\<forall>e\<in>set (fst (with_spinner (encode_to_h264 ffmpeg_path returncode a b
                                            :: ('a, 'b, unit) io))). ?P e"
    for a b
    by (simp add: with_spinner_def encode_to_h264_def subprocess_run_def)
  show ?thesis
    unfolding process_uploaded_video_def Let_def save_uploaded_file_def
    by (intro bind_io_events spin enc) simp_all
qed

text \<open>
  Claim C9. The division of the progress computation never divides by zero:
  \<^verbatim>\<open>update_progress\<close> never raises ZeroDivisionError, and when the total is not positive
  it reports the progress 0 without dividing; \<^verbatim>\<open>process_video_with_yolo\<close> calls the
  callback with a positive total only, in every run, so that the branch reporting 0 is
  never taken in \<^verbatim>\<open>process_uploaded_video\<close>.
\<close>

theorem progress_division_guarded:
  "snd (update_progress true_divide current tot) \<noteq> Inl ZeroDivisionError
   \<and> (tot \<le> 0 \<longrightarrow>
        update_progress true_divide current tot
          = ([ProgressBarSet (PyInt 0), StatusText current tot], Inr ()))
   \<and> (\<forall>(i, n)\<in>set (progress_calls (fst (process_video_with_yolo decoder input_path
                                             output_path model progress_callback))). 0 < n)
   \<and> UI (ProgressBarSet (PyInt 0))
       \<notin> set (fst (process_uploaded_video true_divide' uid decoder' uploaded model'
                      ffmpeg_path returncode))"
proof -
  have "\<forall>e\<in>set (fst (process_video_with_yolo decoder input_path output_path model
                        progress_callback)). \<forall>i n. e = ProgressCall i n \<longrightarrow> 0 < n"
    by (rule process_video_with_yolo_events) auto
  then have calls: "\<forall>(i, n)\<in>set (progress_calls (fst (process_video_with_yolo decoder input_path
                                             output_path model progress_callback))). 0 < n"
    using progress_calls_mem by fastforce
  show ?thesis
    using calls process_uploaded_video_never_zero
                  [of true_divide' uid decoder' uploaded model' ffmpeg_path returncode]
    by (auto simp: update_progress_no_zero_division update_progress_not_positive)
qed

text \<open>
  A call with the total 0 reports 0 and does not divide; the calls of a run on two frames
  have the total 2; an upload whose header reports no frame count sets no progress at all.
\<close>

theorem progress_division_guarded_witness:
  "snd (update_progress exact_divide 3 0) \<noteq> Inl ZeroDivisionError
   \<and> update_progress exact_divide 3 0 = ([ProgressBarSet (PyInt 0), StatusText 3 0], Inr ())
   \<and> list_all (\<lambda>(i, n). 0 < n)
        (progress_calls (fst (process_video_with_yolo example_decoder ''in.mp4'' ''out.mp4''
                                example_model (Some (update_progress exact_divide)))))
   \<and> UI (ProgressBarSet (PyInt 0))
       \<notin> set (fst (process_uploaded_video exact_divide ''u'' example_decoder uncounted_video
                      example_model ''ffmpeg'' 0))"
  using progress_division_guarded
          [of exact_divide 3 0 example_decoder "''in.mp4''" "''out.mp4''" example_model
              "Some (update_progress exact_divide)" exact_divide "''u''" example_decoder
              uncounted_video example_model "''ffmpeg''" 0]
  by (simp add: list_all_iff)

end
